theory Spec2Isabelle
  imports Main "HOL-Library.Sublist"
begin

section \<open>The run report as the digest reads it\<close>

text \<open>
  A stored run report is a JSON document. The digest reads it with \<open>dict.get\<close> and
  defaults, so every key it looks up may be missing: an optional key is an \<open>option\<close>
  field (\<open>None\<close> when the key is absent).

  The \<open>details\<close> of a component are \<open>None\<close>, or a dict, or some other value. Of a
  details dict only the \<open>strategies\<close> entry is ever read: it is absent, present with
  \<open>None\<close>, or a dict whose \<open>strategies_found\<close> entry (a dict from strategy name to a
  flag, in insertion order) may itself be absent.
\<close>

datatype strategies_entry =
    StrategiesAbsent
  | StrategiesNull
  | StrategiesDict "(string \<times> bool) list option"

datatype details =
    DetailsNone
  | DetailsOther
  | DetailsDict strategies_entry

record component_result =
  comp_name :: "string option"
  comp_found :: "bool option"
  comp_details :: details

record page_result =
  page_type :: "string option"
  components :: "component_result list option"

record target_result =
  country :: string
  status :: string
  alerts_count :: "nat option"
  pages :: "page_result list option"
  error :: "string option"
  timestamp :: string

datatype py_error = AttributeError | TypeError

text \<open>\<open>Dict[str, set]\<close>: issue label to the set of page types.\<close>

type_synonym issues = "string \<rightharpoonup> string set"

text \<open>
  \<^verbatim>\<open>if label not in components_issues: components_issues[label] = set()\<close>
  \<^verbatim>\<open>components_issues[label].add(page_type)\<close>
\<close>

definition add_issue :: "issues \<Rightarrow> string \<Rightarrow> string \<Rightarrow> issues" where
  "add_issue m label pt =
     (case m label of
        None \<Rightarrow> m(label \<mapsto> insert pt {})
      | Some s \<Rightarrow> m(label \<mapsto> insert pt s))"

text \<open>\<^verbatim>\<open>for strategy_name, found in strategies_found.items(): if not found: ...\<close>\<close>

fun add_missing_strategies :: "string \<Rightarrow> issues \<Rightarrow> (string \<times> bool) list \<Rightarrow> issues" where
  "add_missing_strategies pt m [] = m"
| "add_missing_strategies pt m ((strategy_name, found) # rest) =
     add_missing_strategies pt (if \<not> found then add_issue m strategy_name pt else m) rest"

subsection \<open>src/services/teams\_service.py: the dedup-aware extraction\<close>

text \<open>
  \<^verbatim>\<open>has_strategies = (details and isinstance(details, dict) and\<close>
  \<^verbatim>\<open>                  'strategies' in details and details.get('strategies') is not None)\<close>
\<close>

definition has_strategies :: "details \<Rightarrow> bool" where
  "has_strategies d =
     (case d of
        DetailsDict (StrategiesDict sf) \<Rightarrow> True
      | _ \<Rightarrow> False)"

text \<open>
  \<^verbatim>\<open>strategies = details.get('strategies', {})\<close>
  \<^verbatim>\<open>strategies_found = strategies.get('strategies_found', {}) if strategies else {}\<close>
\<close>

definition strategies_found_of :: "details \<Rightarrow> (string \<times> bool) list" where
  "strategies_found_of d =
     (case d of
        DetailsDict (StrategiesDict (Some sf)) \<Rightarrow> sf
      | _ \<Rightarrow> [])"

definition component_name_of :: "component_result \<Rightarrow> string" where
  "component_name_of c = (case comp_name c of None \<Rightarrow> ''Unknown'' | Some n \<Rightarrow> n)"

definition component_found_of :: "component_result \<Rightarrow> bool" where
  "component_found_of c = (case comp_found c of None \<Rightarrow> False | Some b \<Rightarrow> b)"

definition page_type_of :: "page_result \<Rightarrow> string" where
  "page_type_of p = (case page_type p of None \<Rightarrow> ''N/A'' | Some t \<Rightarrow> t)"

definition components_of :: "page_result \<Rightarrow> component_result list" where
  "components_of p = (case components p of None \<Rightarrow> [] | Some cs \<Rightarrow> cs)"

definition pages_of :: "target_result \<Rightarrow> page_result list" where
  "pages_of r = (case pages r of None \<Rightarrow> [] | Some ps \<Rightarrow> ps)"

text \<open>The body of the loop over a page's components.\<close>

definition component_issues :: "string \<Rightarrow> issues \<Rightarrow> component_result \<Rightarrow> issues" where
  "component_issues pt m c =
     (if has_strategies (comp_details c)
      then add_missing_strategies pt m (strategies_found_of (comp_details c))
      else if \<not> component_found_of c then add_issue m (component_name_of c) pt
      else m)"

fun components_issues_loop :: "string \<Rightarrow> issues \<Rightarrow> component_result list \<Rightarrow> issues" where
  "components_issues_loop pt m [] = m"
| "components_issues_loop pt m (c # cs) = components_issues_loop pt (component_issues pt m c) cs"

fun pages_issues_loop :: "issues \<Rightarrow> page_result list \<Rightarrow> issues" where
  "pages_issues_loop m [] = m"
| "pages_issues_loop m (p # ps) =
     pages_issues_loop (components_issues_loop (page_type_of p) m (components_of p)) ps"

definition extract_components_issues :: "target_result \<Rightarrow> issues" where
  "extract_components_issues alert = pages_issues_loop Map.empty (pages_of alert)"

subsection \<open>services/teams\_service.py: the earlier extraction\<close>

text \<open>
  The second module of the same name. Its defaults differ (\<open>'N/A'\<close> for a missing name,
  \<open>True\<close> for a missing \<open>found\<close>), it adds the component's own name whenever the
  component was not found, and then reads the strategies of any details dict;
  \<^verbatim>\<open>strategies.get\<close> on a \<open>None\<close> entry raises \<open>AttributeError\<close>.
\<close>

definition component_name_of_services :: "component_result \<Rightarrow> string" where
  "component_name_of_services c = (case comp_name c of None \<Rightarrow> ''N/A'' | Some n \<Rightarrow> n)"

definition component_found_of_services :: "component_result \<Rightarrow> bool" where
  "component_found_of_services c = (case comp_found c of None \<Rightarrow> True | Some b \<Rightarrow> b)"

definition component_issues_services ::
  "string \<Rightarrow> issues \<Rightarrow> component_result \<Rightarrow> py_error + issues" where
  "component_issues_services pt m c =
     (let m1 = (if \<not> component_found_of_services c
                then add_issue m (component_name_of_services c) pt else m)
      in case comp_details c of
           DetailsDict StrategiesAbsent \<Rightarrow> Inr m1
         | DetailsDict StrategiesNull \<Rightarrow> Inl AttributeError
         | DetailsDict (StrategiesDict None) \<Rightarrow> Inr m1
         | DetailsDict (StrategiesDict (Some sf)) \<Rightarrow> Inr (add_missing_strategies pt m1 sf)
         | _ \<Rightarrow> Inr m1)"

fun components_issues_loop_services ::
  "string \<Rightarrow> issues \<Rightarrow> component_result list \<Rightarrow> py_error + issues" where
  "components_issues_loop_services pt m [] = Inr m"
| "components_issues_loop_services pt m (c # cs) =
     (case component_issues_services pt m c of
        Inl e \<Rightarrow> Inl e
      | Inr m' \<Rightarrow> components_issues_loop_services pt m' cs)"

fun pages_issues_loop_services :: "issues \<Rightarrow> page_result list \<Rightarrow> py_error + issues" where
  "pages_issues_loop_services m [] = Inr m"
| "pages_issues_loop_services m (p # ps) =
     (case components_issues_loop_services (page_type_of p) m (components_of p) of
        Inl e \<Rightarrow> Inl e
      | Inr m' \<Rightarrow> pages_issues_loop_services m' ps)"

definition extract_components_issues_services :: "target_result \<Rightarrow> py_error + issues" where
  "extract_components_issues_services alert = pages_issues_loop_services Map.empty (pages_of alert)"

text \<open>
  The shape of a component record as \<open>check_component\<close> builds it: the keys \<open>name\<close>,
  \<open>found\<close> and \<open>details\<close> are always set, and \<open>details\<close> is \<open>None\<close> unless the
  component was found, in which case it may be a dict with a \<open>strategies\<close> dict.
\<close>

definition checked_shape :: "component_result \<Rightarrow> bool" where
  "checked_shape c =
     (comp_name c \<noteq> None \<and> comp_found c \<noteq> None \<and>
      (case comp_details c of
         DetailsNone \<Rightarrow> True
       | DetailsDict (StrategiesDict sf) \<Rightarrow> comp_found c = Some True
       | _ \<Rightarrow> False))"

definition reachable_result :: "target_result \<Rightarrow> bool" where
  "reachable_result r = list_all (\<lambda>p. list_all checked_shape (components_of p)) (pages_of r)"

text \<open>Whether an issue map files page type \<open>pt\<close> under \<open>label\<close>.\<close>

definition filed :: "issues \<Rightarrow> string \<Rightarrow> string \<Rightarrow> bool" where
  "filed m label pt = (case m label of None \<Rightarrow> False | Some s \<Rightarrow> pt \<in> s)"

section \<open>scraper.py: text normalisation\<close>

text \<open>
  Rendered text and text patterns are Python \<open>str\<close> values: sequences of Unicode code
  points, here natural numbers. Names, attribute values and labels are only compared and
  split on whitespace; they are strings of HOL characters.
\<close>

type_synonym ustr = "nat list"

datatype pyval = PyNone | PyBool bool | PyInt int | PyStr ustr | PyList "pyval list"

text \<open>
  \<^verbatim>\<open>encode('ascii', 'ignore').decode('ascii')\<close> drops every code point outside ASCII.
\<close>

definition encode_ascii_ignore :: "ustr \<Rightarrow> ustr" where
  "encode_ascii_ignore s = filter (\<lambda>c. c < 128) s"

text \<open>\<^verbatim>\<open>str.lower\<close>, on the ASCII text it is applied to.\<close>

definition lower_char :: "nat \<Rightarrow> nat" where
  "lower_char c = (if 65 \<le> c \<and> c \<le> 90 then c + 32 else c)"

definition lower :: "ustr \<Rightarrow> ustr" where
  "lower s = map lower_char s"

text \<open>
  \<^verbatim>\<open>unicodedata.normalize('NFKD', text)\<close> is computed from the Unicode character
  database, which is no part of the repository: the decomposition \<open>nfkd\<close> is a parameter.
  It raises \<open>TypeError\<close> for an argument that is no \<open>str\<close>.
\<close>

definition normalize_str :: "(ustr \<Rightarrow> ustr) \<Rightarrow> ustr \<Rightarrow> ustr" where
  "normalize_str nfkd text = lower (encode_ascii_ignore (nfkd text))"

definition normalize_text :: "(ustr \<Rightarrow> ustr) \<Rightarrow> pyval \<Rightarrow> py_error + ustr" where
  "normalize_text nfkd text =
     (case text of
        PyStr s \<Rightarrow> Inr (normalize_str nfkd s)
      | _ \<Rightarrow> Inl TypeError)"

text \<open>
  The methods \<open>_normalize_text\<close>, \<open>_partial_match\<close> and the other underscored ones are
  written without the leading underscore. Where the source normalises a value that is a
  \<open>str\<close> by construction, the model applies \<open>normalize_str\<close>, the \<open>str\<close> branch.
\<close>

text \<open>\<^verbatim>\<open>self._normalize_text(pattern) in self._normalize_text(text)\<close>\<close>

definition partial_match :: "(ustr \<Rightarrow> ustr) \<Rightarrow> ustr \<Rightarrow> ustr \<Rightarrow> bool" where
  "partial_match nfkd text pattern = sublist (normalize_str nfkd pattern) (normalize_str nfkd text)"

text \<open>
  A fragment of the decomposition table, for concrete runs: the precomposed letters
  U+00C9 and U+00E9 decompose into the base letter and the combining acute accent
  U+0301, the ligature U+FB01 into \<open>f\<close> and \<open>i\<close>; every other code point is kept.
\<close>

definition sample_decompose :: "nat \<Rightarrow> ustr" where
  "sample_decompose c =
     (if c = 201 then [69, 769]
      else if c = 233 then [101, 769]
      else if c = 64257 then [102, 105]
      else [c])"

definition sample_nfkd :: "ustr \<Rightarrow> ustr" where
  "sample_nfkd s = concat (map sample_decompose s)"

section \<open>scraper.py: the rendered document\<close>

text \<open>
  The document tree BeautifulSoup returns: a tag carries its attributes (as parsed, one
  value per attribute name) and its children; a text node carries a string that
  \<open>get_text\<close> reads. The root of the tree is the soup object itself.
\<close>

datatype node = Text ustr | Tag "(string \<times> string) list" "node list"

fun attrs :: "node \<Rightarrow> (string \<times> string) list" where
  "attrs (Text s) = []"
| "attrs (Tag a cs) = a"

text \<open>\<^verbatim>\<open>el.get(key)\<close>\<close>

definition get_attr :: "node \<Rightarrow> string \<Rightarrow> string option" where
  "get_attr el key = map_of (attrs el) key"

fun is_tag :: "node \<Rightarrow> bool" where
  "is_tag (Text s) = False"
| "is_tag (Tag a cs) = True"

text \<open>The tags below a node, in document order (the order \<open>find\<close> and \<open>find_all\<close> scan).\<close>

fun descendants :: "node \<Rightarrow> node list" where
  "descendants (Text s) = []"
| "descendants (Tag a cs) = concat (map (\<lambda>c. (if is_tag c then [c] else []) @ descendants c) cs)"

text \<open>The strings below a node, in document order.\<close>

fun all_strings :: "node \<Rightarrow> ustr list" where
  "all_strings (Text s) = [s]"
| "all_strings (Tag a cs) = concat (map all_strings cs)"

text \<open>The code points \<^verbatim>\<open>str.isspace\<close> accepts.\<close>

definition isspace :: "nat \<Rightarrow> bool" where
  "isspace c =
     ((9 \<le> c \<and> c \<le> 13) \<or> (28 \<le> c \<and> c \<le> 32) \<or> c = 133 \<or> c = 160 \<or> c = 5760 \<or>
      (8192 \<le> c \<and> c \<le> 8202) \<or> c = 8232 \<or> c = 8233 \<or> c = 8239 \<or> c = 8287 \<or> c = 12288)"

definition strip :: "ustr \<Rightarrow> ustr" where
  "strip s = rev (dropWhile isspace (rev (dropWhile isspace s)))"

text \<open>
  \<^verbatim>\<open>container.get_text(strip=True)\<close>: every string stripped, the empty ones left out,
  the rest joined with the empty separator.
\<close>

definition get_text_strip :: "node \<Rightarrow> ustr" where
  "get_text_strip el = concat (filter (\<lambda>s. s \<noteq> []) (map strip (all_strings el)))"

text \<open>
  Whitespace among the characters of a name or an attribute value (the code points below
  256 that \<^verbatim>\<open>str.isspace\<close> accepts).
\<close>

definition is_ws :: "char \<Rightarrow> bool" where
  "is_ws c = (c \<in> set [CHR 0x09, CHR 0x0A, CHR 0x0B, CHR 0x0C, CHR 0x0D,
                        CHR 0x1C, CHR 0x1D, CHR 0x1E, CHR 0x1F, CHR '' '',
                        CHR 0x85, CHR 0xA0])"

text \<open>\<^verbatim>\<open>value.split()\<close>: the maximal runs of characters that are no whitespace.\<close>

fun split_words :: "string \<Rightarrow> string \<Rightarrow> string list" where
  "split_words cur [] = (if cur = [] then [] else [cur])"
| "split_words cur (c # cs) =
     (if is_ws c then (if cur = [] then split_words [] cs else cur # split_words [] cs)
      else split_words (cur @ [c]) cs)"

definition py_split :: "string \<Rightarrow> string list" where
  "py_split s = split_words [] s"

text \<open>
  The value of a tag's \<open>class\<close> attribute as BeautifulSoup holds it: the list of its
  whitespace-separated tokens, or \<open>None\<close> when the tag has no such attribute.
\<close>

definition classes_of :: "node \<Rightarrow> string list option" where
  "classes_of el = map_option py_split (get_attr el ''class'')"

text \<open>\<^verbatim>\<open>' '.join(tokens)\<close>\<close>

fun join_space :: "string list \<Rightarrow> string" where
  "join_space [] = []"
| "join_space [w] = w"
| "join_space (w # ws) = w @ '' '' @ join_space ws"

text \<open>
  BeautifulSoup's attribute filter against one string: a multi-valued attribute matches
  when one of its tokens is the string, or the tokens joined by spaces are; a missing
  attribute matches only the empty string.
\<close>

definition matches_class_string :: "string list option \<Rightarrow> string \<Rightarrow> bool" where
  "matches_class_string cls wanted =
     (case cls of
        None \<Rightarrow> wanted = []
      | Some toks \<Rightarrow> wanted \<in> set toks \<or> join_space toks = wanted)"

text \<open>
  Against a list of strings the filter asks for a match with at least one item of the
  list (and a missing attribute matches only the empty list).
\<close>

definition matches_class_list :: "string list option \<Rightarrow> string list \<Rightarrow> bool" where
  "matches_class_list cls wanted =
     (case cls of
        None \<Rightarrow> wanted = []
      | Some toks \<Rightarrow> list_ex (\<lambda>w. matches_class_string (Some toks) w) wanted)"

text \<open>A single-valued attribute matches a string it equals; a missing one the empty string.\<close>

definition matches_attr :: "string option \<Rightarrow> string \<Rightarrow> bool" where
  "matches_attr v wanted = (case v of None \<Rightarrow> wanted = [] | Some a \<Rightarrow> a = wanted)"

text \<open>\<^verbatim>\<open>soup.find(attrs={key: value})\<close>, and \<^verbatim>\<open>soup.find(id=value)\<close> with key \<open>id\<close>.\<close>

definition find_by_attr :: "node \<Rightarrow> string \<Rightarrow> string \<Rightarrow> node option" where
  "find_by_attr soup key wanted =
     List.find (\<lambda>el. matches_attr (get_attr el key) wanted) (descendants soup)"

text \<open>\<^verbatim>\<open>soup.find_all(class_=classes)\<close> for a list, \<^verbatim>\<open>el.find_all(class_=c)\<close> for a string.\<close>

definition find_all_class_list :: "node \<Rightarrow> string list \<Rightarrow> node list" where
  "find_all_class_list soup wanted =
     filter (\<lambda>el. matches_class_list (classes_of el) wanted) (descendants soup)"

definition find_all_class_string :: "node \<Rightarrow> string \<Rightarrow> node list" where
  "find_all_class_string soup wanted =
     filter (\<lambda>el. matches_class_string (classes_of el) wanted) (descendants soup)"

section \<open>scraper.py: the component matcher\<close>

record strategy =
  strategy_name :: string
  text_pattern :: ustr
  container_class :: "string option"

record component =
  name :: string
  identifier_type :: string
  identifier_value :: string
  carousel_strategies :: "strategy list option"
  text_strategies :: "strategy list option"

definition find_component_by_data_testid :: "node \<Rightarrow> string \<Rightarrow> bool" where
  "find_component_by_data_testid soup v =
     (case find_by_attr soup ''data-testid'' v of
        Some el \<Rightarrow> True
      | None \<Rightarrow> find_by_attr soup ''data-test-id'' v \<noteq> None)"

definition find_elements_by_class :: "node \<Rightarrow> string \<Rightarrow> node list" where
  "find_elements_by_class soup v = find_all_class_list soup (py_split v)"

definition find_component_by_class :: "node \<Rightarrow> string \<Rightarrow> bool" where
  "find_component_by_class soup v = (length (find_elements_by_class soup v) > 0)"

text \<open>
  The \<open>id\<close> branch calls \<^verbatim>\<open>self.find_component_by_id\<close>. The class defines no method
  of that name (and nothing assigns one), so looking the attribute up raises
  \<open>AttributeError\<close> before the document is searched.
\<close>

definition check_component_by_identifier_type ::
  "node \<Rightarrow> component \<Rightarrow> py_error + (bool \<times> node list option)" where
  "check_component_by_identifier_type soup c =
     (if identifier_type c = ''data-testid'' \<or> identifier_type c = ''data-test-id'' then
        (case find_by_attr soup (identifier_type c) (identifier_value c) of
           Some element \<Rightarrow> Inr (True, Some [element])
         | None \<Rightarrow> Inr (False, None))
      else if identifier_type c = ''class'' then
        (let elements = find_elements_by_class soup (identifier_value c)
         in Inr (length elements > 0, if length elements > 0 then Some elements else None))
      else if identifier_type c = ''id'' then Inl AttributeError
      else Inr (False, None))"

text \<open>The decimal digits of a number, as an f-string prints them.\<close>

definition digit_char :: "nat \<Rightarrow> char" where
  "digit_char d =
     (if d = 0 then CHR ''0'' else if d = 1 then CHR ''1'' else if d = 2 then CHR ''2''
      else if d = 3 then CHR ''3'' else if d = 4 then CHR ''4'' else if d = 5 then CHR ''5''
      else if d = 6 then CHR ''6'' else if d = 7 then CHR ''7'' else if d = 8 then CHR ''8''
      else CHR ''9'')"

fun str_nat :: "nat \<Rightarrow> string" where
  "str_nat n =
     (if n < 10 then [digit_char n]
      else str_nat (n div 10) @ [digit_char (n mod 10)])"

declare str_nat.simps [simp del]

text \<open>\<^verbatim>\<open>el.get('id') or f"el-{idx+1}"\<close> (and the same with \<open>carousel-\<close>).\<close>

definition element_label :: "string \<Rightarrow> nat \<Rightarrow> node \<Rightarrow> string" where
  "element_label stem idx el =
     (case get_attr el ''id'' of
        None \<Rightarrow> stem @ str_nat (idx + 1)
      | Some v \<Rightarrow> if v \<noteq> [] then v else stem @ str_nat (idx + 1))"

fun enumerate_labels :: "string \<Rightarrow> nat \<Rightarrow> node list \<Rightarrow> string list" where
  "enumerate_labels stem idx [] = []"
| "enumerate_labels stem idx (el # els) =
     element_label stem idx el # enumerate_labels stem (Suc idx) els"

text \<open>
  The three dicts \<open>find_strategies_in_elements\<close> fills, each keyed by strategy name.
  \<open>strategies_details[name]\<close> is the dict \<open>{'found_in': [...]}\<close>, held as its list.
  Every name the loops look up was entered when the dicts were initialised, so no lookup
  raises \<open>KeyError\<close>; \<open>lookup_list\<close> reads a list under such a name.
\<close>

record strategy_result =
  strategies_found :: "string \<rightharpoonup> bool"
  strategies_details :: "string \<rightharpoonup> string list"
  potential_matches :: "string \<rightharpoonup> ustr list"

definition lookup_list :: "(string \<rightharpoonup> 'a list) \<Rightarrow> string \<Rightarrow> 'a list" where
  "lookup_list m k = (case m k of None \<Rightarrow> [] | Some xs \<Rightarrow> xs)"

text \<open>\<^verbatim>\<open>search_in = el.find_all(class_=container_class) if container_class else [el]\<close>\<close>

definition search_in :: "node \<Rightarrow> strategy \<Rightarrow> node list" where
  "search_in el strat =
     (case container_class strat of
        None \<Rightarrow> [el]
      | Some cc \<Rightarrow> if cc \<noteq> [] then find_all_class_string el cc else [el])"

text \<open>The test of the innermost loop: the normalised pattern is in the normalised text.\<close>

definition container_matches :: "(ustr \<Rightarrow> ustr) \<Rightarrow> strategy \<Rightarrow> node \<Rightarrow> bool" where
  "container_matches nfkd strat container =
     sublist (normalize_str nfkd (text_pattern strat))
       (normalize_str nfkd (get_text_strip container))"

text \<open>\<^verbatim>\<open>for container_idx, container in enumerate(search_in)\<close>, with its \<open>break\<close>.\<close>

fun scan_containers ::
  "(ustr \<Rightarrow> ustr) \<Rightarrow> strategy \<Rightarrow> string \<Rightarrow> strategy_result \<Rightarrow> node list \<Rightarrow> strategy_result" where
  "scan_containers nfkd strat label st [] = st"
| "scan_containers nfkd strat label st (container # rest) =
     (if container_matches nfkd strat container
      then st\<lparr>strategies_found := (strategies_found st)(strategy_name strat \<mapsto> True),
              strategies_details := (strategies_details st)(strategy_name strat \<mapsto>
                lookup_list (strategies_details st) (strategy_name strat) @ [label])\<rparr>
      else scan_containers nfkd strat label
             (st\<lparr>potential_matches := (potential_matches st)(strategy_name strat \<mapsto>
                lookup_list (potential_matches st) (strategy_name strat)
                  @ [get_text_strip container])\<rparr>)
             rest)"

text \<open>\<^verbatim>\<open>for strat in strategies\<close>, with \<^verbatim>\<open>if strategies_found[name]: continue\<close>.\<close>

fun scan_strategies ::
  "(ustr \<Rightarrow> ustr) \<Rightarrow> node \<Rightarrow> string \<Rightarrow> strategy_result \<Rightarrow> strategy list \<Rightarrow> strategy_result" where
  "scan_strategies nfkd el label st [] = st"
| "scan_strategies nfkd el label st (strat # rest) =
     (if strategies_found st (strategy_name strat) = Some True
      then scan_strategies nfkd el label st rest
      else scan_strategies nfkd el label
             (scan_containers nfkd strat label st (search_in el strat)) rest)"

text \<open>\<^verbatim>\<open>for idx, el in enumerate(elements)\<close>\<close>

fun scan_elements ::
  "(ustr \<Rightarrow> ustr) \<Rightarrow> strategy list \<Rightarrow> nat \<Rightarrow> strategy_result \<Rightarrow> node list \<Rightarrow> strategy_result" where
  "scan_elements nfkd strategies idx st [] = st"
| "scan_elements nfkd strategies idx st (el # els) =
     scan_elements nfkd strategies (Suc idx)
       (scan_strategies nfkd el (element_label ''el-'' idx el) st strategies) els"

definition initial_result :: "strategy list \<Rightarrow> strategy_result" where
  "initial_result strategies =
     \<lparr>strategies_found = map_of (map (\<lambda>s. (strategy_name s, False)) strategies),
      strategies_details = map_of (map (\<lambda>s. (strategy_name s, [])) strategies),
      potential_matches = map_of (map (\<lambda>s. (strategy_name s, [])) strategies)\<rparr>"

definition find_strategies_in_elements ::
  "(ustr \<Rightarrow> ustr) \<Rightarrow> node list \<Rightarrow> strategy list \<Rightarrow> strategy_result" where
  "find_strategies_in_elements nfkd elements strategies =
     scan_elements nfkd strategies 0 (initial_result strategies) elements"

text \<open>\<open>found_in\<close> of a strategy name in a result.\<close>

definition found_in :: "strategy_result \<Rightarrow> string \<Rightarrow> string list" where
  "found_in r n = lookup_list (strategies_details r) n"

datatype built_details =
    CarouselDetails "string list" strategy_result
  | ElementDetails "string list" strategy_result

definition build_component_details ::
  "(ustr \<Rightarrow> ustr) \<Rightarrow> component \<Rightarrow> node list option \<Rightarrow> built_details option" where
  "build_component_details nfkd c elements =
     (case elements of
        None \<Rightarrow> None
      | Some els \<Rightarrow>
          if els = [] then None
          else (case carousel_strategies c of
                  Some strategies \<Rightarrow>
                    Some (CarouselDetails (enumerate_labels ''carousel-'' 0 els)
                            (find_strategies_in_elements nfkd els strategies))
                | None \<Rightarrow>
                    (case text_strategies c of
                       Some strategies \<Rightarrow>
                         Some (ElementDetails (enumerate_labels ''el-'' 0 els)
                                 (find_strategies_in_elements nfkd els strategies))
                     | None \<Rightarrow> None)))"

record match_result =
  res_name :: string
  res_found :: bool
  res_details :: "built_details option"

text \<open>What \<open>_log_component_not_found\<close> prints: a line for the \<open>id\<close> type only.\<close>

datatype log_line = ElementNotFound string

definition log_component_not_found :: "component \<Rightarrow> log_line list" where
  "log_component_not_found c =
     (if identifier_type c = ''id'' then [ElementNotFound (identifier_value c)] else [])"

text \<open>\<open>check_component\<close> returns the result dict; the second component is what it printed.\<close>

definition check_component ::
  "(ustr \<Rightarrow> ustr) \<Rightarrow> node \<Rightarrow> component \<Rightarrow> py_error + (match_result \<times> log_line list)" where
  "check_component nfkd soup c =
     (case check_component_by_identifier_type soup c of
        Inl e \<Rightarrow> Inl e
      | Inr (found, elements) \<Rightarrow>
          if found
          then Inr (\<lparr>res_name = name c, res_found = found,
                     res_details = build_component_details nfkd c elements\<rparr>, [])
          else Inr (\<lparr>res_name = name c, res_found = found, res_details = None\<rparr>,
                    log_component_not_found c))"

subsection \<open>Notions the properties of the strategy search are stated with\<close>

text \<open>
  An element satisfies a strategy when the container loop over its search scope reaches
  a container that matches, that is, when the loop breaks.
\<close>

definition element_satisfies :: "(ustr \<Rightarrow> ustr) \<Rightarrow> strategy \<Rightarrow> node \<Rightarrow> bool" where
  "element_satisfies nfkd strat el = list_ex (container_matches nfkd strat) (search_in el strat)"

definition is_found :: "strategy_result \<Rightarrow> string \<Rightarrow> bool" where
  "is_found st n = (strategies_found st n = Some True)"

text \<open>One round of the loop over the strategies.\<close>

definition strategy_step ::
  "(ustr \<Rightarrow> ustr) \<Rightarrow> node \<Rightarrow> string \<Rightarrow> strategy_result \<Rightarrow> strategy \<Rightarrow> strategy_result" where
  "strategy_step nfkd el label st strat =
     (if strategies_found st (strategy_name strat) = Some True then st
      else scan_containers nfkd strat label st (search_in el strat))"

text \<open>Whether some strategy of the given name is satisfied by the element.\<close>

definition name_hit :: "(ustr \<Rightarrow> ustr) \<Rightarrow> strategy list \<Rightarrow> string \<Rightarrow> node \<Rightarrow> bool" where
  "name_hit nfkd strats n el =
     (\<exists>s \<in> set strats. strategy_name s = n \<and> element_satisfies nfkd s el)"

section \<open>src/orchestrator/scraper\_orchestrator.py\<close>






record alert =
  alert_date :: string
  alert_country :: string
  alert_page_type :: string
  alert_component :: string
  alert_status :: "string option"
  alert_message :: string
  alert_timestamp :: "string option"




















subsection \<open>Notions the properties of the job are stated with\<close>



section \<open>Concrete inputs\<close>








text \<open>A page with one element of classes \<open>a\<close> and \<open>b\<close>, and a component asking for \<open>a c\<close>.\<close>

definition class_doc :: node where
  "class_doc = Tag [] [Tag [(''class'', ''a b'')] [Text [104, 105]]]"

definition class_spec :: component where
  "class_spec =
     \<lparr>name = ''Hero'', identifier_type = ''class'', identifier_value = ''a c'',
      carousel_strategies = None, text_strategies = None\<rparr>"

text \<open>
  A page whose only marked element carries \<open>data-test-id="hero"\<close>, a component naming the
  other alias \<open>data-testid\<close>, and a component looked up by id.
\<close>

definition alias_doc :: node where
  "alias_doc = Tag [] [Tag [(''data-test-id'', ''hero'')] [Text [104, 105]]]"

definition alias_spec :: component where
  "alias_spec =
     \<lparr>name = ''Hero'', identifier_type = ''data-testid'', identifier_value = ''hero'',
      carousel_strategies = None, text_strategies = None\<rparr>"

definition id_doc :: node where
  "id_doc = Tag [] [Tag [(''id'', ''hero'')] [Text [104, 105]]]"

definition id_spec :: component where
  "id_spec =
     \<lparr>name = ''Hero'', identifier_type = ''id'', identifier_value = ''hero'',
      carousel_strategies = None, text_strategies = None\<rparr>"

text \<open>
  Two elements, the first with the text \<open>foo\<close>, the second (its id empty) with \<open>Bar\<close>
  between blanks; two strategies that share a name, and two that do not.
\<close>

definition el_foo :: node where
  "el_foo = Tag [] [Text [102, 111, 111]]"

definition el_bar :: node where
  "el_bar = Tag [(''id'', [])] [Text [32, 66, 97, 114, 32]]"

definition strat_foo :: strategy where
  "strat_foo = \<lparr>strategy_name = ''S'', text_pattern = [102, 111, 111], container_class = None\<rparr>"

definition strat_bar :: strategy where
  "strat_bar = \<lparr>strategy_name = ''S'', text_pattern = [98, 97, 114], container_class = None\<rparr>"

definition strat_one :: strategy where
  "strat_one =
     \<lparr>strategy_name = ''Strategy 1'', text_pattern = [98, 97, 114], container_class = None\<rparr>"

definition strat_two :: strategy where
  "strat_two =
     \<lparr>strategy_name = ''Strategy 2'', text_pattern = [122], container_class = None\<rparr>"

text \<open>The result of test\_optimized.py: one absent component, one with two failing strategies.\<close>

definition fixture_result :: target_result where
  "fixture_result =
     \<lparr>country = ''CL'', status = ''success'', alerts_count = Some 3,
      pages = Some
        [\<lparr>page_type = Some ''PDP'',
          components = Some
            [\<lparr>comp_name = Some ''Cross Sell'', comp_found = Some False,
              comp_details = DetailsNone\<rparr>]\<rparr>,
         \<lparr>page_type = Some ''HOME'',
          components = Some
            [\<lparr>comp_name = Some ''Purchased With Recently Purchased'', comp_found = Some True,
              comp_details = DetailsDict (StrategiesDict
                (Some [(''Strategy 1'', False), (''Strategy 2'', False)]))\<rparr>]\<rparr>],
      error = None, timestamp = ''2026-02-09T17:33:00''\<rparr>"

text \<open>A component with one failed and one passed strategy, itself flagged not found.\<close>

definition mixed_result :: target_result where
  "mixed_result =
     \<lparr>country = ''CL'', status = ''success'', alerts_count = Some 1,
      pages = Some
        [\<lparr>page_type = Some ''HOME'',
          components = Some
            [\<lparr>comp_name = Some ''Carousel'', comp_found = Some False,
              comp_details = DetailsDict (StrategiesDict
                (Some [(''Strategy 1'', False), (''Strategy 2'', True)]))\<rparr>]\<rparr>],
      error = None, timestamp = ''2026-02-09T17:33:00''\<rparr>"

section \<open>Properties of the issue extraction\<close>

lemma filed_add_issue:
  "filed (add_issue m l' pt') l pt \<longleftrightarrow> filed m l pt \<or> (l = l' \<and> pt = pt')"
  by (auto simp: filed_def add_issue_def split: option.splits)

lemma filed_add_missing_strategies:
  "filed (add_missing_strategies pt' m sf) l pt \<longleftrightarrow>
     filed m l pt \<or> (pt = pt' \<and> (l, False) \<in> set sf)"
  by (induction pt' m sf rule: add_missing_strategies.induct) (auto simp: filed_add_issue)

lemma filed_component_issues:
  "filed (component_issues pt' m c) l pt \<longleftrightarrow>
     filed m l pt \<or>
     (pt = pt' \<and>
      (if has_strategies (comp_details c)
       then (l, False) \<in> set (strategies_found_of (comp_details c))
       else \<not> component_found_of c \<and> l = component_name_of c))"
  by (auto simp: component_issues_def filed_add_issue filed_add_missing_strategies)

lemma filed_components_issues_loop:
  "filed (components_issues_loop pt' m cs) l pt \<longleftrightarrow>
     filed m l pt \<or>
     (pt = pt' \<and>
      (\<exists>c \<in> set cs.
         if has_strategies (comp_details c)
         then (l, False) \<in> set (strategies_found_of (comp_details c))
         else \<not> component_found_of c \<and> l = component_name_of c))"
proof (induction cs arbitrary: m)
  case Nil
  show ?case by simp
next
  case (Cons c cs)
  show ?case
    unfolding components_issues_loop.simps Cons.IH filed_component_issues
    by auto
qed

lemma filed_pages_issues_loop:
  "filed (pages_issues_loop m ps) l pt \<longleftrightarrow>
     filed m l pt \<or>
     (\<exists>p \<in> set ps. pt = page_type_of p \<and>
        (\<exists>c \<in> set (components_of p).
           if has_strategies (comp_details c)
           then (l, False) \<in> set (strategies_found_of (comp_details c))
           else \<not> component_found_of c \<and> l = component_name_of c))"
proof (induction ps arbitrary: m)
  case Nil
  show ?case by simp
next
  case (Cons p ps)
  show ?case
    unfolding pages_issues_loop.simps Cons.IH filed_components_issues_loop
    by auto
qed

text \<open>No label is ever mapped to the empty set.\<close>

lemma no_empty_add_issue:
  "\<forall>l. m l \<noteq> Some {} \<Longrightarrow> \<forall>l. add_issue m l' pt l \<noteq> Some {}"
  by (auto simp: add_issue_def split: option.splits)

lemma no_empty_add_missing_strategies:
  "\<forall>l. m l \<noteq> Some {} \<Longrightarrow> \<forall>l. add_missing_strategies pt m sf l \<noteq> Some {}"
proof (induction pt m sf rule: add_missing_strategies.induct)
  case (1 pt m)
  then show ?case by simp
next
  case (2 pt m strategy_name found rest)
  then show ?case
    using no_empty_add_issue [of m strategy_name pt] by (cases found) simp_all
qed

lemma no_empty_component_issues:
  "\<forall>l. m l \<noteq> Some {} \<Longrightarrow> \<forall>l. component_issues pt m c l \<noteq> Some {}"
  unfolding component_issues_def
  using no_empty_add_issue [of m] no_empty_add_missing_strategies [of m]
  by (simp del: all_simps)

lemma no_empty_components_issues_loop:
  "\<forall>l. m l \<noteq> Some {} \<Longrightarrow> \<forall>l. components_issues_loop pt m cs l \<noteq> Some {}"
proof (induction cs arbitrary: m)
  case Nil
  then show ?case by simp
next
  case (Cons c cs)
  from no_empty_component_issues [OF Cons.prems]
  have "\<forall>l. component_issues pt m c l \<noteq> Some {}" .
  from Cons.IH [OF this] show ?case by simp
qed

lemma no_empty_pages_issues_loop:
  "\<forall>l. m l \<noteq> Some {} \<Longrightarrow> \<forall>l. pages_issues_loop m ps l \<noteq> Some {}"
proof (induction ps arbitrary: m)
  case Nil
  then show ?case by simp
next
  case (Cons p ps)
  from no_empty_components_issues_loop [OF Cons.prems]
  have "\<forall>l. components_issues_loop (page_type_of p) m (components_of p) l \<noteq> Some {}" .
  from Cons.IH [OF this] show ?case by simp
qed

text \<open>
  C1 (digest dedup invariant). For every result, label and page type: the extraction files
  the page type under the label exactly when some component on a page of that type either
  carries a non-null strategies object and has a failing strategy of that name, or carries
  no strategies object, was not found and has that name. So a component with strategies is
  mapped to its failing strategy names only, whatever its own \<open>found\<close> flag says, and no
  label is mapped to an empty set of page types.
\<close>

theorem extract_components_issues_dedup:
  "(filed (extract_components_issues r) l pt \<longleftrightarrow>
      (\<exists>p \<in> set (pages_of r). pt = page_type_of p \<and>
         (\<exists>c \<in> set (components_of p).
            if has_strategies (comp_details c)
            then (l, False) \<in> set (strategies_found_of (comp_details c))
            else \<not> component_found_of c \<and> l = component_name_of c))) \<and>
   extract_components_issues r l \<noteq> Some {}"
proof
  show "filed (extract_components_issues r) l pt \<longleftrightarrow>
      (\<exists>p \<in> set (pages_of r). pt = page_type_of p \<and>
         (\<exists>c \<in> set (components_of p).
            if has_strategies (comp_details c)
            then (l, False) \<in> set (strategies_found_of (comp_details c))
            else \<not> component_found_of c \<and> l = component_name_of c))"
    unfolding extract_components_issues_def filed_pages_issues_loop
    by (simp add: filed_def)
  have "\<forall>l. (Map.empty :: issues) l \<noteq> Some {}"
    by simp
  then have "\<forall>l. extract_components_issues r l \<noteq> Some {}"
    unfolding extract_components_issues_def by (rule no_empty_pages_issues_loop)
  then show "extract_components_issues r l \<noteq> Some {}"
    by simp
qed

theorem extract_components_issues_dedup_witness:
  "filed (extract_components_issues mixed_result) ''Strategy 1'' ''HOME'' \<and>
   \<not> filed (extract_components_issues mixed_result) ''Strategy 2'' ''HOME'' \<and>
   \<not> filed (extract_components_issues mixed_result) ''Carousel'' ''HOME'' \<and>
   extract_components_issues mixed_result ''Strategy 1'' \<noteq> Some {} \<and>
   filed (extract_components_issues fixture_result) ''Cross Sell'' ''PDP'' \<and>
   filed (extract_components_issues fixture_result) ''Strategy 2'' ''HOME'' \<and>
   \<not> filed (extract_components_issues fixture_result)
       ''Purchased With Recently Purchased'' ''HOME''"
  using extract_components_issues_dedup [of mixed_result "''Strategy 1''" "''HOME''"]
    extract_components_issues_dedup [of mixed_result "''Strategy 2''" "''HOME''"]
    extract_components_issues_dedup [of mixed_result "''Carousel''" "''HOME''"]
    extract_components_issues_dedup [of fixture_result "''Cross Sell''" "''PDP''"]
    extract_components_issues_dedup [of fixture_result "''Strategy 2''" "''HOME''"]
    extract_components_issues_dedup
      [of fixture_result "''Purchased With Recently Purchased''" "''HOME''"]
  by (simp add: mixed_result_def fixture_result_def pages_of_def components_of_def
      page_type_of_def has_strategies_def strategies_found_of_def component_found_of_def
      component_name_of_def)

subsection \<open>The two extractions agree on checked components\<close>

lemma component_issues_services_eq:
  "checked_shape c \<Longrightarrow> component_issues_services pt m c = Inr (component_issues pt m c)"
  by (auto simp: checked_shape_def component_issues_services_def component_issues_def
      has_strategies_def strategies_found_of_def component_found_of_def
      component_found_of_services_def component_name_of_def component_name_of_services_def
      split: details.splits strategies_entry.splits option.splits)

lemma components_issues_loop_services_eq:
  "list_all checked_shape cs \<Longrightarrow>
   components_issues_loop_services pt m cs = Inr (components_issues_loop pt m cs)"
  by (induction cs arbitrary: m) (simp_all add: component_issues_services_eq)

lemma pages_issues_loop_services_eq:
  "list_all (\<lambda>p. list_all checked_shape (components_of p)) ps \<Longrightarrow>
   pages_issues_loop_services m ps = Inr (pages_issues_loop m ps)"
  by (induction ps arbitrary: m) (simp_all add: components_issues_loop_services_eq)

text \<open>
  C10. On every result whose component records have the shape \<open>check_component\<close> builds
  (\<open>name\<close> and \<open>found\<close> set; \<open>details\<close> a dict with a \<open>strategies\<close> dict only when found,
  and \<open>None\<close> otherwise), the extraction of services/teams\_service.py returns without
  raising, and returns the very mapping the extraction of src/services/teams\_service.py
  returns.
\<close>

theorem extract_components_issues_agree:
  "reachable_result r \<Longrightarrow>
   extract_components_issues_services r = Inr (extract_components_issues r)"
  by (simp add: reachable_result_def extract_components_issues_services_def
      extract_components_issues_def pages_issues_loop_services_eq)

theorem extract_components_issues_agree_witness:
  "reachable_result fixture_result \<and>
   extract_components_issues_services fixture_result =
     Inr (extract_components_issues fixture_result)"
proof -
  have h: "reachable_result fixture_result"
    by (simp add: reachable_result_def fixture_result_def pages_of_def components_of_def
        checked_shape_def)
  from h extract_components_issues_agree [OF h] show ?thesis by simp
qed

section \<open>Properties of the text normaliser\<close>

lemma sample_nfkd_ascii: "list_all (\<lambda>c. c < 128) t \<Longrightarrow> sample_nfkd t = t"
  by (induction t) (auto simp: sample_nfkd_def sample_decompose_def)

lemma normalize_str_ascii: "list_all (\<lambda>c. c < 128) (normalize_str nfkd s)"
  by (auto simp: normalize_str_def lower_def lower_char_def encode_ascii_ignore_def list_all_iff)

lemma lower_char_idem: "lower_char (lower_char c) = lower_char c"
  by (simp add: lower_char_def)

lemma filter_ascii_id: "list_all (\<lambda>c. c < 128) t \<Longrightarrow> filter (\<lambda>c. c < 128) t = t"
  by (induction t) auto

lemma normalize_str_idem:
  assumes "\<And>t. list_all (\<lambda>c. c < 128) t \<Longrightarrow> nfkd t = t"
  shows "normalize_str nfkd (normalize_str nfkd s) = normalize_str nfkd s"
proof -
  let ?t = "normalize_str nfkd s"
  have ascii: "list_all (\<lambda>c. c < 128) ?t" by (rule normalize_str_ascii)
  have "normalize_str nfkd ?t = lower (encode_ascii_ignore ?t)"
    by (simp add: normalize_str_def [of nfkd ?t] assms [OF ascii])
  also have "\<dots> = lower ?t"
    using ascii by (simp add: encode_ascii_ignore_def filter_ascii_id)
  also have "\<dots> = ?t"
    by (simp add: normalize_str_def lower_def lower_char_idem)
  finally show ?thesis .
qed

text \<open>
  C8, as amended. On every \<open>str\<close> the normaliser returns a string, and on the empty
  string the empty string (the decomposition of the empty string being empty); on a value
  that is no \<open>str\<close> it raises \<open>TypeError\<close>.
\<close>

theorem normalize_text_total_on_str:
  assumes "nfkd [] = []"
  shows "(\<exists>t. normalize_text nfkd (PyStr s) = Inr t) \<and>
         normalize_text nfkd (PyStr []) = Inr [] \<and>
         normalize_text nfkd PyNone = Inl TypeError \<and>
         normalize_text nfkd (PyBool b) = Inl TypeError \<and>
         normalize_text nfkd (PyInt i) = Inl TypeError \<and>
         normalize_text nfkd (PyList vs) = Inl TypeError"
  using assms
  by (simp add: normalize_text_def normalize_str_def lower_def encode_ascii_ignore_def)

theorem normalize_text_total_on_str_witness:
  "sample_nfkd [] = [] \<and>
   normalize_text sample_nfkd (PyStr [201]) = Inr [101] \<and>
   normalize_text sample_nfkd (PyStr []) = Inr [] \<and>
   normalize_text sample_nfkd (PyInt 7) = Inl TypeError"
proof -
  have h: "sample_nfkd [] = []" by (simp add: sample_nfkd_def)
  have "normalize_text sample_nfkd (PyStr [201]) = Inr [101]"
    by (simp add: normalize_text_def normalize_str_def lower_def lower_char_def
        encode_ascii_ignore_def sample_nfkd_def sample_decompose_def)
  with h normalize_text_total_on_str [of sample_nfkd "[201]" True 7 "[]", OF h] show ?thesis by simp
qed

text \<open>The normaliser does not return the empty string on \<open>None\<close>: it raises.\<close>

theorem normalize_text_none_counterexample:
  "normalize_text sample_nfkd PyNone = Inl TypeError \<and>
   normalize_text sample_nfkd PyNone \<noteq> Inr []"
  by (simp add: normalize_text_def)

text \<open>
  C9. Normalisation is idempotent: where the decomposition leaves ASCII text as it is (as
  NFKD does), normalising a string returns a string that normalises to itself.
\<close>

theorem normalize_text_idempotent:
  assumes "\<And>t. list_all (\<lambda>c. c < 128) t \<Longrightarrow> nfkd t = t"
  shows "\<exists>t. normalize_text nfkd (PyStr s) = Inr t \<and> normalize_text nfkd (PyStr t) = Inr t"
  using normalize_str_idem [of nfkd s, OF assms]
  by (simp add: normalize_text_def)

theorem normalize_text_idempotent_witness:
  "normalize_text sample_nfkd (PyStr [67, 97, 102, 233]) = Inr [99, 97, 102, 101] \<and>
   normalize_text sample_nfkd (PyStr [99, 97, 102, 101]) = Inr [99, 97, 102, 101]"
proof -
  have v: "normalize_text sample_nfkd (PyStr [67, 97, 102, 233]) = Inr [99, 97, 102, 101]"
    by (simp add: normalize_text_def normalize_str_def lower_def lower_char_def
        encode_ascii_ignore_def sample_nfkd_def sample_decompose_def)
  from normalize_text_idempotent [of sample_nfkd "[67, 97, 102, 233]", OF sample_nfkd_ascii]
  obtain t where "normalize_text sample_nfkd (PyStr [67, 97, 102, 233]) = Inr t"
    and "normalize_text sample_nfkd (PyStr t) = Inr t" by blast
  with v show ?thesis by simp
qed

section \<open>Properties of the component matcher\<close>

text \<open>
  C2, the code at the failing input. The only element of the page has the classes \<open>a\<close>
  and \<open>b\<close>, so no element has both tokens of \<open>a c\<close>; \<open>check_component\<close> reports the
  component found all the same, because the list of tokens handed to \<open>find_all\<close> matches
  an element that has any one of them.
\<close>

theorem check_component_class_any_token:
  "check_component nfkd class_doc class_spec =
     Inr (\<lparr>res_name = ''Hero'', res_found = True, res_details = None\<rparr>, []) \<and>
   py_split (identifier_value class_spec) = [''a'', ''c''] \<and>
   map classes_of (descendants class_doc) = [Some [''a'', ''b'']]"
  by (simp add: check_component_def check_component_by_identifier_type_def
      find_elements_by_class_def find_all_class_list_def py_split_def is_ws_def classes_of_def
      get_attr_def matches_class_list_def matches_class_string_def build_component_details_def
      class_doc_def class_spec_def)

text \<open>
  C3, the code at the failing input. The element carries the alias \<open>data-test-id\<close> with
  the value asked for, the component names \<open>data-testid\<close>: \<open>check_component\<close> searches
  the named attribute only and reports the component absent, where
  \<open>find_component_by_data_testid\<close> tries both aliases and finds it.
\<close>

theorem check_component_named_alias_only:
  "check_component nfkd alias_doc alias_spec =
     Inr (\<lparr>res_name = ''Hero'', res_found = False, res_details = None\<rparr>, []) \<and>
   find_component_by_data_testid alias_doc (identifier_value alias_spec)"
  by (simp add: check_component_def check_component_by_identifier_type_def find_by_attr_def
      get_attr_def matches_attr_def find_component_by_data_testid_def
      log_component_not_found_def alias_doc_def alias_spec_def)

text \<open>
  C4, the code on every component identified by id: the call of the undefined method
  \<open>find_component_by_id\<close> raises, whatever the document holds, so no result is returned
  and no diagnostic line is printed.
\<close>

theorem check_component_id_raises:
  "identifier_type c = ''id'' \<Longrightarrow> check_component nfkd soup c = Inl AttributeError"
  by (simp add: check_component_def check_component_by_identifier_type_def)

theorem check_component_id_raises_witness:
  "identifier_type id_spec = ''id'' \<and>
   map (\<lambda>el. get_attr el ''id'') (descendants id_doc) = [Some ''hero''] \<and>
   check_component sample_nfkd id_doc id_spec = Inl AttributeError"
proof -
  have h: "identifier_type id_spec = ''id''" by (simp add: id_spec_def)
  from h check_component_id_raises [OF h, of sample_nfkd id_doc] show ?thesis
    by (simp add: id_doc_def get_attr_def)
qed

subsection \<open>The strategy search\<close>

lemma scan_containers_found:
  "strategies_found (scan_containers nfkd strat label st cs) =
     (if list_ex (container_matches nfkd strat) cs
      then (strategies_found st)(strategy_name strat \<mapsto> True)
      else strategies_found st)"
  by (induction cs arbitrary: st) auto

lemma scan_containers_details:
  "strategies_details (scan_containers nfkd strat label st cs) =
     (if list_ex (container_matches nfkd strat) cs
      then (strategies_details st)(strategy_name strat \<mapsto>
             lookup_list (strategies_details st) (strategy_name strat) @ [label])
      else strategies_details st)"
  by (induction cs arbitrary: st) auto

lemma is_found_scan_containers:
  "is_found (scan_containers nfkd strat label st cs) n \<longleftrightarrow>
     is_found st n \<or> (n = strategy_name strat \<and> list_ex (container_matches nfkd strat) cs)"
  by (auto simp: is_found_def scan_containers_found)

lemma found_in_scan_containers:
  "found_in (scan_containers nfkd strat label st cs) n =
     (if n = strategy_name strat \<and> list_ex (container_matches nfkd strat) cs
      then found_in st n @ [label] else found_in st n)"
  by (auto simp: found_in_def scan_containers_details lookup_list_def)


lemma scan_strategies_Cons:
  "scan_strategies nfkd el label st (s # rest) =
     scan_strategies nfkd el label (strategy_step nfkd el label st s) rest"
  by (simp add: strategy_step_def)

lemma is_found_strategy_step:
  "is_found (strategy_step nfkd el label st s) n \<longleftrightarrow>
     is_found st n \<or> (strategy_name s = n \<and> element_satisfies nfkd s el)"
  by (auto simp: strategy_step_def is_found_scan_containers element_satisfies_def)
     (auto simp: is_found_def)

lemma found_in_strategy_step:
  "found_in (strategy_step nfkd el label st s) n =
     (if \<not> is_found st n \<and> strategy_name s = n \<and> element_satisfies nfkd s el
      then found_in st n @ [label] else found_in st n)"
  by (auto simp: strategy_step_def found_in_scan_containers element_satisfies_def)
     (auto simp: is_found_def)

lemma is_found_scan_strategies:
  "is_found (scan_strategies nfkd el label st strats) n \<longleftrightarrow>
     is_found st n \<or>
     (\<exists>s \<in> set strats. strategy_name s = n \<and> element_satisfies nfkd s el)"
proof (induction strats arbitrary: st)
  case Nil
  show ?case by simp
next
  case (Cons s strats)
  show ?case
    unfolding scan_strategies_Cons Cons.IH is_found_strategy_step by auto
qed

lemma found_in_scan_strategies:
  "found_in (scan_strategies nfkd el label st strats) n =
     (if \<not> is_found st n \<and>
         (\<exists>s \<in> set strats. strategy_name s = n \<and> element_satisfies nfkd s el)
      then found_in st n @ [label] else found_in st n)"
proof (induction strats arbitrary: st)
  case Nil
  show ?case by simp
next
  case (Cons s strats)
  show ?case
    unfolding scan_strategies_Cons Cons.IH is_found_strategy_step found_in_strategy_step
    by auto
qed

lemma is_found_scan_elements:
  "is_found (scan_elements nfkd strats idx st els) n \<longleftrightarrow>
     is_found st n \<or> (\<exists>el \<in> set els. name_hit nfkd strats n el)"
proof (induction els arbitrary: st idx)
  case Nil
  show ?case by simp
next
  case (Cons el els)
  show ?case
    unfolding scan_elements.simps Cons.IH is_found_scan_strategies name_hit_def by auto
qed

lemma found_in_scan_elements_found:
  "is_found st n \<Longrightarrow> found_in (scan_elements nfkd strats idx st els) n = found_in st n"
proof (induction els arbitrary: st idx)
  case Nil
  show ?case by simp
next
  case (Cons el els)
  have "is_found (scan_strategies nfkd el (element_label ''el-'' idx el) st strats) n"
    using Cons.prems by (simp add: is_found_scan_strategies)
  then show ?case
    using Cons.prems by (simp add: Cons.IH found_in_scan_strategies)
qed

lemma found_in_scan_elements_first:
  assumes "\<not> is_found st n"
    and "\<forall>e \<in> set pre. \<not> name_hit nfkd strats n e"
    and "name_hit nfkd strats n el"
  shows "found_in (scan_elements nfkd strats idx st (pre @ el # post)) n =
           found_in st n @ [element_label ''el-'' (idx + length pre) el]"
  using assms
proof (induction pre arbitrary: st idx)
  case Nil
  have "is_found (scan_strategies nfkd el (element_label ''el-'' idx el) st strats) n"
    using Nil.prems by (simp add: is_found_scan_strategies name_hit_def)
  then show ?case
    using Nil.prems
    by (simp add: found_in_scan_elements_found found_in_scan_strategies name_hit_def)
next
  case (Cons e pre)
  let ?st = "scan_strategies nfkd e (element_label ''el-'' idx e) st strats"
  have nf: "\<not> is_found ?st n"
    using Cons.prems by (simp add: is_found_scan_strategies name_hit_def)
  have same: "found_in ?st n = found_in st n"
    using Cons.prems by (simp add: found_in_scan_strategies name_hit_def)
  have "found_in (scan_elements nfkd strats (Suc idx) ?st (pre @ el # post)) n =
          found_in ?st n @ [element_label ''el-'' (Suc idx + length pre) el]"
    using Cons.prems nf by (intro Cons.IH) auto
  then show ?case by (simp add: same)
qed

lemma found_in_scan_elements_none:
  assumes "\<not> is_found st n" and "\<forall>e \<in> set els. \<not> name_hit nfkd strats n e"
  shows "found_in (scan_elements nfkd strats idx st els) n = found_in st n"
  using assms
proof (induction els arbitrary: st idx)
  case Nil
  show ?case by simp
next
  case (Cons e els)
  let ?st = "scan_strategies nfkd e (element_label ''el-'' idx e) st strats"
  have nf: "\<not> is_found ?st n"
    using Cons.prems by (simp add: is_found_scan_strategies name_hit_def)
  have same: "found_in ?st n = found_in st n"
    using Cons.prems by (simp add: found_in_scan_strategies name_hit_def)
  show ?case using Cons.prems nf same by (simp add: Cons.IH)
qed

lemma initial_not_found: "\<not> is_found (initial_result strats) n"
  by (auto simp: is_found_def initial_result_def dest!: map_of_SomeD)

lemma initial_found_in: "found_in (initial_result strats) n = []"
  by (auto simp: found_in_def initial_result_def lookup_list_def
      split: option.splits dest!: map_of_SomeD)

lemma name_hit_distinct:
  assumes "distinct (map strategy_name strats)" and "strat \<in> set strats"
  shows "name_hit nfkd strats (strategy_name strat) el \<longleftrightarrow> element_satisfies nfkd strat el"
proof -
  have "s = strat" if "s \<in> set strats" "strategy_name s = strategy_name strat" for s
    using assms that by (meson distinct_map inj_onD)
  then show ?thesis
    using assms(2) by (auto simp: name_hit_def)
qed

text \<open>
  C5, as amended. Among strategies with pairwise distinct names, a strategy that an element
  satisfies, and no element before it does, ends up found, with exactly the label of
  that element under \<open>found_in\<close>, whatever the elements after it hold: the search for the
  strategy stops at the first element that satisfies it. In particular, when exactly one
  element satisfies the strategy, \<open>found_in\<close> is the one label of that element.
\<close>

theorem found_in_first_satisfying_element:
  assumes "distinct (map strategy_name strategies)"
    and "strat \<in> set strategies"
    and "\<forall>e \<in> set pre. \<not> element_satisfies nfkd strat e"
    and "element_satisfies nfkd strat el"
  shows "found_in (find_strategies_in_elements nfkd (pre @ el # post) strategies)
           (strategy_name strat) = [element_label ''el-'' (length pre) el] \<and>
         is_found (find_strategies_in_elements nfkd (pre @ el # post) strategies)
           (strategy_name strat)"
proof
  have "found_in (scan_elements nfkd strategies 0 (initial_result strategies) (pre @ el # post))
          (strategy_name strat) =
        found_in (initial_result strategies) (strategy_name strat)
          @ [element_label ''el-'' (0 + length pre) el]"
    using assms
    by (intro found_in_scan_elements_first) (simp_all add: initial_not_found name_hit_distinct)
  then show "found_in (find_strategies_in_elements nfkd (pre @ el # post) strategies)
           (strategy_name strat) = [element_label ''el-'' (length pre) el]"
    by (simp add: find_strategies_in_elements_def initial_found_in)
  have "name_hit nfkd strategies (strategy_name strat) el"
    using assms by (simp add: name_hit_distinct)
  then show "is_found (find_strategies_in_elements nfkd (pre @ el # post) strategies)
           (strategy_name strat)"
    by (auto simp: find_strategies_in_elements_def is_found_scan_elements)
qed

lemmas search_simps =
  el_foo_def el_bar_def strat_foo_def strat_bar_def strat_one_def strat_two_def
  element_satisfies_def container_matches_def search_in_def normalize_str_def lower_def
  lower_char_def encode_ascii_ignore_def sample_nfkd_def sample_decompose_def
  get_text_strip_def strip_def isspace_def sublist_Cons_right find_strategies_in_elements_def
  initial_result_def found_in_def lookup_list_def element_label_def get_attr_def
  digit_char_def str_nat.simps

theorem found_in_first_satisfying_element_witness:
  "distinct (map strategy_name [strat_one, strat_two]) \<and>
   strat_one \<in> set [strat_one, strat_two] \<and>
   \<not> element_satisfies sample_nfkd strat_one el_foo \<and>
   element_satisfies sample_nfkd strat_one el_bar \<and>
   found_in (find_strategies_in_elements sample_nfkd [el_foo, el_bar, el_bar]
              [strat_one, strat_two]) ''Strategy 1'' = [''el-2'']"
proof -
  have d: "distinct (map strategy_name [strat_one, strat_two])"
    by (simp add: strat_one_def strat_two_def)
  have m: "strat_one \<in> set [strat_one, strat_two]" by simp
  have n: "\<forall>e \<in> set [el_foo]. \<not> element_satisfies sample_nfkd strat_one e"
    by (simp add: search_simps)
  have y: "element_satisfies sample_nfkd strat_one el_bar"
    by (simp add: search_simps)
  have l: "element_label ''el-'' (length [el_foo]) el_bar = ''el-2''"
    by (simp add: search_simps)
  have n': "\<not> element_satisfies sample_nfkd strat_one el_foo"
    using n by simp
  from found_in_first_satisfying_element [OF d m n y, of "[el_bar]"] l d m n' y
  show ?thesis by (simp add: strat_one_def)
qed

text \<open>
  With two strategies of one name the claim fails as stated: the pattern of the second
  strategy occurs in the second element only, whose label is \<open>el-2\<close>, yet \<open>found_in\<close>
  for the strategy holds \<open>el-1\<close>, the element that satisfied its namesake.
\<close>

theorem found_in_same_name_counterexample:
  "\<not> element_satisfies sample_nfkd strat_bar el_foo \<and>
   element_satisfies sample_nfkd strat_bar el_bar \<and>
   element_label ''el-'' 1 el_bar = ''el-2'' \<and>
   found_in (find_strategies_in_elements sample_nfkd [el_foo, el_bar] [strat_foo, strat_bar])
     (strategy_name strat_bar) = [''el-1'']"
  by (simp add: search_simps)

section \<open>Properties of the orchestrator\<close>










subsection \<open>What leaves the body of the job\<close>
















end
